theory Spec2Isabelle
  imports Main
begin

section \<open>The booking agent of \<^verbatim>\<open>src/agent.py\<close>\<close>

text \<open>
  The module has one tool, \<^verbatim>\<open>Assistant.book_room\<close>, and one session handler,
  \<^verbatim>\<open>my_agent\<close>. Both only call collaborators that are not part of the repository
  (\<^verbatim>\<open>os\<close>, \<^verbatim>\<open>json\<close>, \<^verbatim>\<open>google.oauth2\<close>, \<^verbatim>\<open>gspread\<close>, \<^verbatim>\<open>livekit\<close>). What those
  collaborators answer is a parameter of the model (a record of outcomes); what the
  module does with the answers is translated line by line.
\<close>

subsection \<open>Exceptions\<close>

text \<open>
  \<^verbatim>\<open>book_room\<close> has two handlers, \<^verbatim>\<open>except json.JSONDecodeError\<close> and then
  \<^verbatim>\<open>except Exception\<close>. An exception value is therefore either an instance of
  \<^verbatim>\<open>json.JSONDecodeError\<close> or any other instance of \<^verbatim>\<open>Exception\<close>; both carry the
  text that \<^verbatim>\<open>str(e)\<close> gives. Interrupts of the process (\<^verbatim>\<open>KeyboardInterrupt\<close>,
  \<^verbatim>\<open>SystemExit\<close>), which are not instances of \<^verbatim>\<open>Exception\<close>, are not results of the
  library calls and are outside the model.
\<close>

datatype exn = JSONDecodeError string | OtherException string

subsection \<open>The spreadsheet service and the log\<close>

text \<open>A cell holds what Python puts into the row list: a \<^verbatim>\<open>str\<close> or an \<^verbatim>\<open>int\<close>.\<close>

datatype cell = Str string | Num int

type_synonym row = "cell list"
type_synonym worksheet = "row list"
type_synonym spreadsheet = "worksheet list"

text \<open>The calls to the spreadsheet client, in the order in which they are made.\<close>

datatype call =
    Authorize
  | OpenSpreadsheet string
  | Sheet1 string
  | AppendRow string row

datatype level = INFO | ERROR

text \<open>
  The mutable part: the spreadsheets by title (each a list of worksheets, the first
  being \<^verbatim>\<open>sheet1\<close>), the calls made to the client so far, and the log records.
\<close>

record state =
  drive :: "string \<rightharpoonup> spreadsheet"
  calls :: "call list"
  logged :: "(level \<times> string) list"

text \<open>
  The answers of the collaborators: the process environment, \<^verbatim>\<open>json.loads\<close>,
  \<^verbatim>\<open>Credentials.from_service_account_info\<close>, and for every call to the spreadsheet
  client the exception it raises, if any (authorization rejected, network failure,
  permission denied, ...). \<open>'j\<close> is the type of decoded JSON values, \<open>'c\<close> the type of
  credential objects.
\<close>

record ('j, 'c) world =
  environ :: "string \<rightharpoonup> string"
  json_loads :: "string \<Rightarrow> exn + 'j"
  from_service_account_info :: "'j \<Rightarrow> string list \<Rightarrow> exn + 'c"
  authorize_error :: "'c \<Rightarrow> exn option"
  open_error :: "'c \<Rightarrow> string \<Rightarrow> exn option"
  sheet1_error :: "'c \<Rightarrow> string \<Rightarrow> exn option"
  append_row_error :: "'c \<Rightarrow> string \<Rightarrow> row \<Rightarrow> exn option"

definition getenv :: "('j, 'c) world \<Rightarrow> string \<Rightarrow> string option" where
  "getenv w name = environ w name"

definition log_record :: "level \<Rightarrow> string \<Rightarrow> state \<Rightarrow> state" where
  "log_record lvl msg st = st\<lparr>logged := logged st @ [(lvl, msg)]\<rparr>"

definition record_call :: "call \<Rightarrow> state \<Rightarrow> state" where
  "record_call c st = st\<lparr>calls := calls st @ [c]\<rparr>"

text \<open>
  The four operations of the spreadsheet client that \<^verbatim>\<open>book_room\<close> uses. Each records
  its call, then raises what the world says, and otherwise acts on the drive:
  \<^verbatim>\<open>open\<close> raises when no spreadsheet has the title, \<^verbatim>\<open>sheet1\<close> when the spreadsheet
  has no worksheet, \<^verbatim>\<open>append_row\<close> puts the row after the last row of the worksheet.
  The client object is identified with the credentials it was built from, a
  spreadsheet and its first worksheet with the spreadsheet's title.
\<close>

definition gspread_authorize ::
  "('j, 'c) world \<Rightarrow> 'c \<Rightarrow> state \<Rightarrow> (exn + 'c) \<times> state" where
  "gspread_authorize w creds st =
     (let st' = record_call Authorize st in
      case authorize_error w creds of
        Some e \<Rightarrow> (Inl e, st')
      | None \<Rightarrow> (Inr creds, st'))"

definition client_open ::
  "('j, 'c) world \<Rightarrow> 'c \<Rightarrow> string \<Rightarrow> state \<Rightarrow> (exn + string) \<times> state" where
  "client_open w client title st =
     (let st' = record_call (OpenSpreadsheet title) st in
      case open_error w client title of
        Some e \<Rightarrow> (Inl e, st')
      | None \<Rightarrow>
          (case drive st' title of
             None \<Rightarrow> (Inl (OtherException ''SpreadsheetNotFound''), st')
           | Some _ \<Rightarrow> (Inr title, st')))"

definition sheet1 ::
  "('j, 'c) world \<Rightarrow> 'c \<Rightarrow> string \<Rightarrow> state \<Rightarrow> (exn + string) \<times> state" where
  "sheet1 w client title st =
     (let st' = record_call (Sheet1 title) st in
      case sheet1_error w client title of
        Some e \<Rightarrow> (Inl e, st')
      | None \<Rightarrow>
          (case drive st' title of
             None \<Rightarrow> (Inl (OtherException ''SpreadsheetNotFound''), st')
           | Some [] \<Rightarrow> (Inl (OtherException ''WorksheetNotFound''), st')
           | Some (ws # rest) \<Rightarrow> (Inr title, st')))"

definition append_row ::
  "('j, 'c) world \<Rightarrow> 'c \<Rightarrow> string \<Rightarrow> row \<Rightarrow> state \<Rightarrow> (exn + unit) \<times> state" where
  "append_row w client title vals st =
     (let st' = record_call (AppendRow title vals) st in
      case append_row_error w client title vals of
        Some e \<Rightarrow> (Inl e, st')
      | None \<Rightarrow>
          (case drive st' title of
             None \<Rightarrow> (Inl (OtherException ''SpreadsheetNotFound''), st')
           | Some [] \<Rightarrow> (Inl (OtherException ''WorksheetNotFound''), st')
           | Some (ws # rest) \<Rightarrow>
               (Inr (), st'\<lparr>drive := (drive st')(title \<mapsto> (ws @ [vals]) # rest)\<rparr>)))"

subsection \<open>\<^verbatim>\<open>book_room\<close>\<close>

definition SHEET_NAME :: string where
  "SHEET_NAME = ''Hotel booking''"

definition CREDENTIALS_VAR :: string where
  "CREDENTIALS_VAR = ''GOOGLE_CREDENTIALS_JSON''"

definition scopes :: "string list" where
  "scopes = [''https://www.googleapis.com/auth/spreadsheets'',
             ''https://www.googleapis.com/auth/drive'']"

definition MSG_SUCCESS :: string where
  "MSG_SUCCESS = ''Booking successfully saved to the system.''"

definition MSG_MISSING :: string where
  "MSG_MISSING = ''Error: System configuration error (Missing Credentials).''"

definition MSG_INVALID :: string where
  "MSG_INVALID = ''Error: System configuration error (Invalid Credentials).''"

definition MSG_FAILURE :: string where
  "MSG_FAILURE = ''An error occurred while saving the booking.''"

text \<open>Python's \<^verbatim>\<open>not s\<close> for the result of \<^verbatim>\<open>os.getenv\<close>: true for \<^verbatim>\<open>None\<close> and for \<^verbatim>\<open>''\<close>.\<close>

fun py_not :: "string option \<Rightarrow> bool" where
  "py_not None = True"
| "py_not (Some s) = (s = [])"

text \<open>
  The body of the \<^verbatim>\<open>try\<close> block (lines 96 to 121): \<open>Inr\<close> is a \<^verbatim>\<open>return\<close>, \<open>Inl\<close> an
  exception that leaves the block.
\<close>

definition book_room_try ::
  "('j, 'c) world \<Rightarrow> string \<Rightarrow> string \<Rightarrow> string \<Rightarrow> string \<Rightarrow> int \<Rightarrow> state
     \<Rightarrow> (exn + string) \<times> state" where
  "book_room_try w guest_name phone check_in check_out beds st =
     (let json_creds_string = getenv w CREDENTIALS_VAR in
      if py_not json_creds_string then
        (Inr MSG_MISSING,
         log_record ERROR ''Missing GOOGLE_CREDENTIALS_JSON environment variable.'' st)
      else
        case json_loads w (the json_creds_string) of
          Inl e \<Rightarrow> (Inl e, st)
        | Inr creds_dict \<Rightarrow>
        (case from_service_account_info w creds_dict scopes of
          Inl e \<Rightarrow> (Inl e, st)
        | Inr creds \<Rightarrow>
        (case gspread_authorize w creds st of
          (Inl e, st1) \<Rightarrow> (Inl e, st1)
        | (Inr client, st1) \<Rightarrow>
        (case client_open w client SHEET_NAME st1 of
          (Inl e, st2) \<Rightarrow> (Inl e, st2)
        | (Inr book, st2) \<Rightarrow>
        (case sheet1 w client book st2 of
          (Inl e, st3) \<Rightarrow> (Inl e, st3)
        | (Inr sheet, st3) \<Rightarrow>
        (case append_row w client sheet
                [Str guest_name, Str phone, Str check_in, Str check_out, Num beds] st3 of
          (Inl e, st4) \<Rightarrow> (Inl e, st4)
        | (Inr u, st4) \<Rightarrow>
            (Inr MSG_SUCCESS, log_record INFO ''Booking saved successfully.'' st4)))))))"

text \<open>
  The whole tool (lines 92 to 128): the log record before the \<^verbatim>\<open>try\<close>, the block, and
  the two handlers in the order of the source.
\<close>

definition book_room ::
  "('j, 'c) world \<Rightarrow> string \<Rightarrow> string \<Rightarrow> string \<Rightarrow> string \<Rightarrow> int \<Rightarrow> state
     \<Rightarrow> string \<times> state" where
  "book_room w guest_name phone check_in check_out beds st =
     (let st0 = log_record INFO (''Attempting to book for '' @ guest_name) st in
      case book_room_try w guest_name phone check_in check_out beds st0 of
        (Inr result, st') \<Rightarrow> (result, st')
      | (Inl (JSONDecodeError m), st') \<Rightarrow>
          (MSG_INVALID,
           log_record ERROR ''GOOGLE_CREDENTIALS_JSON contains invalid JSON.'' st')
      | (Inl (OtherException m), st') \<Rightarrow>
          (MSG_FAILURE,
           log_record ERROR (''Failed to save booking: '' @ m) st'))"

subsection \<open>The session handler \<^verbatim>\<open>my_agent\<close>\<close>

text \<open>
  \<^verbatim>\<open>rtc.ParticipantKind\<close> is an enumeration of the runtime. The module names one
  member, \<^verbatim>\<open>PARTICIPANT_KIND_SIP\<close>; the other members are told apart by their number.
\<close>

datatype participant_kind = PARTICIPANT_KIND_SIP | PARTICIPANT_KIND_OTHER nat

record participant =
  identity :: string
  kind :: participant_kind

text \<open>The argument of the selector, of which the lambda reads \<^verbatim>\<open>params.participant\<close>.\<close>

record nc_params =
  participant :: participant

datatype noise_profile = BVCTelephony | BVC

text \<open>The lambda of lines 169 to 171.\<close>

definition noise_cancellation_selector :: "nc_params \<Rightarrow> noise_profile" where
  "noise_cancellation_selector params =
     (if kind (participant params) = PARTICIPANT_KIND_SIP then BVCTelephony else BVC)"

datatype agent = Assistant

record 'v agent_session =
  stt_model :: string
  stt_language :: string
  llm_model :: string
  tts_target_language_code :: string
  tts_speaker :: string
  vad :: 'v
  preemptive_generation :: bool

record 'v job_context =
  room_name :: string
  userdata :: "string \<rightharpoonup> 'v"
  log_context_fields :: "(string \<times> string) list"

text \<open>\<^verbatim>\<open>prewarm\<close> stores the loaded voice-activity detector in the process's user data.\<close>

definition prewarm :: "'v \<Rightarrow> (string \<rightharpoonup> 'v) \<Rightarrow> (string \<rightharpoonup> 'v)" where
  "prewarm vad_load ud = ud(''vad'' \<mapsto> vad_load)"

text \<open>
  The options passed to \<^verbatim>\<open>session.start\<close>: the room options hold the audio input
  options, which hold the noise-cancellation selector.
\<close>

record audio_input_options =
  noise_cancellation :: "nc_params \<Rightarrow> noise_profile"

record room_options =
  audio_input :: audio_input_options

text \<open>The awaited calls of the handler, with their arguments.\<close>

datatype 'v step =
    SessionStart "'v agent_session" agent string room_options
  | SessionSay string
  | CtxConnect

text \<open>
  What the runtime answers: for each constructor that \<^verbatim>\<open>my_agent\<close> calls
  (\<^verbatim>\<open>inference.STT\<close>, \<^verbatim>\<open>inference.LLM\<close>, \<^verbatim>\<open>sarvam.TTS\<close>, \<^verbatim>\<open>AgentSession\<close>,
  \<^verbatim>\<open>Assistant\<close>, \<^verbatim>\<open>room_io.AudioInputOptions\<close>, \<^verbatim>\<open>room_io.RoomOptions\<close>) and for each
  awaited call (\<^verbatim>\<open>session.start\<close>, \<^verbatim>\<open>session.say\<close>, \<^verbatim>\<open>ctx.connect\<close>) the exception it
  raises, if any.
\<close>

record runtime =
  stt_error :: "exn option"
  llm_error :: "exn option"
  tts_error :: "exn option"
  session_error :: "exn option"
  assistant_error :: "exn option"
  audio_input_error :: "exn option"
  room_options_error :: "exn option"
  start_error :: "exn option"
  say_error :: "exn option"
  connect_error :: "exn option"

definition GREETING :: string where
  "GREETING = ''Namaste! Welcome to Grand Vista Hotel. '' @
              ''Sure, I can help you with your booking. '' @
              ''May I know your check-in and check-out dates?''"

text \<open>
  The statement \<^verbatim>\<open>session = AgentSession(...)\<close> (lines 148 to 162). Python evaluates
  the arguments from left to right, the three pipeline constructors and then
  \<^verbatim>\<open>ctx.proc.userdata["vad"]\<close>, which raises \<^verbatim>\<open>KeyError\<close> when the key is missing, and
  then calls \<^verbatim>\<open>AgentSession\<close>. The first exception ends the statement.
\<close>

definition make_session :: "runtime \<Rightarrow> 'v job_context \<Rightarrow> exn + 'v agent_session" where
  "make_session rt ctx =
     (case stt_error rt of
        Some e \<Rightarrow> Inl e
      | None \<Rightarrow>
     (case llm_error rt of
        Some e \<Rightarrow> Inl e
      | None \<Rightarrow>
     (case tts_error rt of
        Some e \<Rightarrow> Inl e
      | None \<Rightarrow>
     (case userdata ctx ''vad'' of
        None \<Rightarrow> Inl (OtherException (CHR 0x27 # ''vad'' @ [CHR 0x27]))
      | Some v \<Rightarrow>
     (case session_error rt of
        Some e \<Rightarrow> Inl e
      | None \<Rightarrow>
          Inr \<lparr>stt_model = ''assemblyai/universal-streaming'',
               stt_language = ''en'',
               llm_model = ''openai/gpt-4.1-mini'',
               tts_target_language_code = ''en-IN'',
               tts_speaker = ''anushka'',
               vad = v,
               preemptive_generation = True\<rparr>)))))"

text \<open>
  The arguments of \<^verbatim>\<open>session.start\<close> that are built by constructors (lines 165 to
  173), in the order of evaluation: \<^verbatim>\<open>Assistant()\<close>, then the audio input options
  around the lambda, then the room options around those.
\<close>

definition make_start_arguments :: "runtime \<Rightarrow> exn + agent \<times> room_options" where
  "make_start_arguments rt =
     (case assistant_error rt of
        Some e \<Rightarrow> Inl e
      | None \<Rightarrow>
     (case audio_input_error rt of
        Some e \<Rightarrow> Inl e
      | None \<Rightarrow>
     (case room_options_error rt of
        Some e \<Rightarrow> Inl e
      | None \<Rightarrow>
          Inr (Assistant,
               \<lparr>audio_input = \<lparr>noise_cancellation = noise_cancellation_selector\<rparr>\<rparr>))))"

text \<open>
  \<^verbatim>\<open>my_agent\<close> (lines 142 to 183) has no handler: the first exception ends it. The
  session and the arguments are built first, and only then is \<^verbatim>\<open>session.start\<close>
  called and awaited, followed by \<^verbatim>\<open>session.say\<close> and \<^verbatim>\<open>ctx.connect\<close>. The result is
  what the handler returns or raises, the context, and the awaited calls it has
  issued, in order.
\<close>

definition my_agent ::
  "runtime \<Rightarrow> 'v job_context \<Rightarrow> (exn + unit) \<times> 'v job_context \<times> 'v step list" where
  "my_agent rt ctx =
     (let ctx1 = ctx\<lparr>log_context_fields := [(''room'', room_name ctx)]\<rparr> in
      case make_session rt ctx1 of
        Inl e \<Rightarrow> (Inl e, ctx1, [])
      | Inr session \<Rightarrow>
     (case make_start_arguments rt of
        Inl e \<Rightarrow> (Inl e, ctx1, [])
      | Inr (agent, room_options) \<Rightarrow>
     (let issued1 = [SessionStart session agent (room_name ctx1) room_options]
      in case start_error rt of
        Some e \<Rightarrow> (Inl e, ctx1, issued1)
      | None \<Rightarrow>
     (let issued2 = issued1 @ [SessionSay GREETING]
      in case say_error rt of
        Some e \<Rightarrow> (Inl e, ctx1, issued2)
      | None \<Rightarrow>
     (let issued3 = issued2 @ [CtxConnect]
      in case connect_error rt of
        Some e \<Rightarrow> (Inl e, ctx1, issued3)
      | None \<Rightarrow> (Inr (), ctx1, issued3))))))"

fun is_say :: "'v step \<Rightarrow> bool" where
  "is_say (SessionSay _) = True"
| "is_say _ = False"

subsection \<open>Sample worlds\<close>

text \<open>
  Concrete collaborators on which the theorems below are run. Decoded JSON is a list
  of fields, a credential object is the account's e-mail address. The sample decoder
  answers as \<^verbatim>\<open>json.loads\<close> does on the four texts that are used: the key text and
  \<^verbatim>\<open>{}\<close> decode, the empty text and \<^verbatim>\<open>not-json\<close> raise \<^verbatim>\<open>JSONDecodeError\<close>.
\<close>

definition KEY_TEXT :: string where
  \<open>KEY_TEXT = ''{"type": "service_account", "client_email": "bot@example.com"}''\<close>

definition sample_json_loads :: "string \<Rightarrow> exn + (string \<times> string) list" where
  "sample_json_loads s =
     (if s = KEY_TEXT then
        Inr [(''type'', ''service_account''), (''client_email'', ''bot@example.com'')]
      else if s = ''{}'' then Inr []
      else Inl (JSONDecodeError ''Expecting value: line 1 column 1 (char 0)''))"

definition sample_from_info :: "(string \<times> string) list \<Rightarrow> string list \<Rightarrow> exn + string" where
  "sample_from_info info scs =
     (case map_of info ''client_email'' of
        None \<Rightarrow> Inl (OtherException
                  ''Service account info was not in the expected format'')
      | Some email \<Rightarrow> Inr email)"

definition sample_world :: "string option \<Rightarrow> ((string \<times> string) list, string) world" where
  "sample_world v =
     \<lparr>environ = (\<lambda>name. if name = CREDENTIALS_VAR then v else None),
      json_loads = sample_json_loads,
      from_service_account_info = sample_from_info,
      authorize_error = (\<lambda>c. None),
      open_error = (\<lambda>c t. None),
      sheet1_error = (\<lambda>c t. None),
      append_row_error = (\<lambda>c t r. None)\<rparr>"

text \<open>
  A second sample world, for the text \<^verbatim>\<open>NaN\<close>. It is not JSON, but \<^verbatim>\<open>json.loads\<close>
  accepts it and returns a float; \<^verbatim>\<open>from_service_account_info\<close> then raises
  \<^verbatim>\<open>AttributeError\<close>, since a float has no keys. Here a decoded value is a dictionary
  or that float.
\<close>

datatype py_value = PyDict "(string \<times> string) list" | PyFloatNaN

definition nan_json_loads :: "string \<Rightarrow> exn + py_value" where
  "nan_json_loads s =
     (if s = ''NaN'' then Inr PyFloatNaN
      else if s = ''{}'' then Inr (PyDict [])
      else Inl (JSONDecodeError ''Expecting value: line 1 column 1 (char 0)''))"

fun nan_from_info :: "py_value \<Rightarrow> string list \<Rightarrow> exn + string" where
  "nan_from_info PyFloatNaN scs =
     Inl (OtherException
            (CHR 0x27 # ''float'' @ CHR 0x27 # '' object has no attribute '' @
             CHR 0x27 # ''keys'' @ [CHR 0x27]))"
| "nan_from_info (PyDict info) scs =
     (case map_of info ''client_email'' of
        None \<Rightarrow> Inl (OtherException
                  ''Service account info was not in the expected format'')
      | Some email \<Rightarrow> Inr email)"

definition nan_world :: "(py_value, string) world" where
  "nan_world =
     \<lparr>environ = (\<lambda>name. if name = CREDENTIALS_VAR then Some ''NaN'' else None),
      json_loads = nan_json_loads,
      from_service_account_info = nan_from_info,
      authorize_error = (\<lambda>c. None),
      open_error = (\<lambda>c t. None),
      sheet1_error = (\<lambda>c t. None),
      append_row_error = (\<lambda>c t r. None)\<rparr>"

text \<open>A drive with the booking spreadsheet: one worksheet holding a header row.\<close>

definition sample_state :: state where
  "sample_state =
     \<lparr>drive = [SHEET_NAME \<mapsto>
                 [[[Str ''Name'', Str ''Phone'', Str ''In'', Str ''Out'', Str ''Beds'']]]],
      calls = [],
      logged = []\<rparr>"

definition sample_runtime :: runtime where
  "sample_runtime =
     \<lparr>stt_error = None, llm_error = None, tts_error = None, session_error = None,
      assistant_error = None, audio_input_error = None, room_options_error = None,
      start_error = None, say_error = None, connect_error = None\<rparr>"

text \<open>A runtime in which everything succeeds except \<^verbatim>\<open>session.start\<close>, which raises.\<close>

definition failing_start_runtime :: runtime where
  "failing_start_runtime =
     sample_runtime\<lparr>start_error := Some (OtherException ''session.start failed'')\<rparr>"

text \<open>A runtime in which everything succeeds except \<^verbatim>\<open>inference.STT\<close>, which raises.\<close>

definition failing_stt_runtime :: runtime where
  "failing_stt_runtime =
     sample_runtime\<lparr>stt_error := Some (OtherException ''inference.STT failed'')\<rparr>"

definition sample_context :: "nat job_context" where
  "sample_context =
     \<lparr>room_name = ''call-1'', userdata = prewarm 0 Map.empty, log_context_fields = []\<rparr>"

subsection \<open>The handlers alone\<close>

text \<open>
  The two \<^verbatim>\<open>except\<close> clauses as a function of the outcome of the \<^verbatim>\<open>try\<close> block; it is
  used to state what \<^verbatim>\<open>book_room\<close> returns.
\<close>

fun handled :: "exn + string \<Rightarrow> string" where
  "handled (Inr r) = r"
| "handled (Inl (JSONDecodeError m)) = MSG_INVALID"
| "handled (Inl (OtherException m)) = MSG_FAILURE"

section \<open>Properties\<close>

subsection \<open>Steps of \<^verbatim>\<open>book_room\<close>\<close>

lemma book_room_try_absent:
  "py_not (environ w CREDENTIALS_VAR) \<Longrightarrow>
   book_room_try w g p ci co b st =
     (Inr MSG_MISSING,
      log_record ERROR ''Missing GOOGLE_CREDENTIALS_JSON environment variable.'' st)"
  by (simp add: book_room_try_def getenv_def)

lemma book_room_try_decode_error:
  "environ w CREDENTIALS_VAR = Some s \<Longrightarrow> s \<noteq> [] \<Longrightarrow> json_loads w s = Inl e \<Longrightarrow>
   book_room_try w g p ci co b st = (Inl e, st)"
  by (simp add: book_room_try_def getenv_def)

lemma book_room_try_credentials_error:
  "environ w CREDENTIALS_VAR = Some s \<Longrightarrow> s \<noteq> [] \<Longrightarrow> json_loads w s = Inr j \<Longrightarrow>
   from_service_account_info w j scopes = Inl e \<Longrightarrow>
   book_room_try w g p ci co b st = (Inl e, st)"
  by (simp add: book_room_try_def getenv_def)

lemma book_room_try_reaches_append:
  "environ w CREDENTIALS_VAR = Some s \<Longrightarrow> s \<noteq> [] \<Longrightarrow> json_loads w s = Inr j \<Longrightarrow>
   from_service_account_info w j scopes = Inr c \<Longrightarrow>
   authorize_error w c = None \<Longrightarrow> open_error w c SHEET_NAME = None \<Longrightarrow>
   sheet1_error w c SHEET_NAME = None \<Longrightarrow>
   drive st SHEET_NAME = Some (ws # rest) \<Longrightarrow>
   book_room_try w g p ci co b st =
     (case append_row w c SHEET_NAME [Str g, Str p, Str ci, Str co, Num b]
             (st\<lparr>calls := calls st @
                  [Authorize, OpenSpreadsheet SHEET_NAME, Sheet1 SHEET_NAME]\<rparr>) of
        (Inl e, st4) \<Rightarrow> (Inl e, st4)
      | (Inr u, st4) \<Rightarrow>
          (Inr MSG_SUCCESS, log_record INFO ''Booking saved successfully.'' st4))"
  by (simp add: book_room_try_def getenv_def gspread_authorize_def client_open_def
        sheet1_def record_call_def)

lemma append_row_ok:
  "append_row_error w c t r = None \<Longrightarrow> drive st t = Some (ws # rest) \<Longrightarrow>
   append_row w c t r st =
     (Inr (), st\<lparr>calls := calls st @ [AppendRow t r],
                 drive := (drive st)(t \<mapsto> (ws @ [r]) # rest)\<rparr>)"
  by (simp add: append_row_def record_call_def)

lemma append_row_raises:
  "append_row_error w c t r = Some e \<Longrightarrow>
   append_row w c t r st = (Inl e, st\<lparr>calls := calls st @ [AppendRow t r]\<rparr>)"
  by (simp add: append_row_def record_call_def)

text \<open>A return of the \<^verbatim>\<open>try\<close> block is one of the two \<^verbatim>\<open>return\<close> statements in it.\<close>

lemma book_room_try_returns:
  "book_room_try w g p ci co b st = (Inr r, st') \<Longrightarrow> r = MSG_MISSING \<or> r = MSG_SUCCESS"
  by (auto simp: book_room_try_def Let_def split: if_splits sum.splits prod.splits)

text \<open>The result of the tool from the outcome of the \<^verbatim>\<open>try\<close> block.\<close>

lemma book_room_handled:
  "fst (book_room w g p ci co b st) =
     handled (fst (book_room_try w g p ci co b
                     (log_record INFO (''Attempting to book for '' @ g) st)))"
  by (simp add: book_room_def Let_def split: prod.splits sum.splits exn.splits)

text \<open>
  The outcome of \<^verbatim>\<open>append_row\<close> depends on the service's answer and on the drive, and
  the outcome of the \<^verbatim>\<open>try\<close> block depends on the booking fields only through it.
\<close>

lemma fst_append_row:
  "fst (append_row w c t r st) =
     (case append_row_error w c t r of
        Some e \<Rightarrow> Inl e
      | None \<Rightarrow>
          (case drive st t of
             None \<Rightarrow> Inl (OtherException ''SpreadsheetNotFound'')
           | Some [] \<Rightarrow> Inl (OtherException ''WorksheetNotFound'')
           | Some (ws # rest) \<Rightarrow> Inr ()))"
  by (simp add: append_row_def record_call_def Let_def split: option.splits list.splits)

lemma drive_after_calls:
  "drive (snd (gspread_authorize w c st)) = drive st"
  "drive (snd (client_open w c t st)) = drive st"
  "drive (snd (sheet1 w c t st)) = drive st"
  by (simp_all add: gspread_authorize_def client_open_def sheet1_def record_call_def Let_def
        split: option.splits list.splits)

lemma fst_calls_drive:
  "drive st = drive st' \<Longrightarrow> fst (gspread_authorize w c st) = fst (gspread_authorize w c st')"
  "drive st = drive st' \<Longrightarrow> fst (client_open w c t st) = fst (client_open w c t st')"
  "drive st = drive st' \<Longrightarrow> fst (sheet1 w c t st) = fst (sheet1 w c t st')"
  by (simp_all add: gspread_authorize_def client_open_def sheet1_def record_call_def Let_def
        split: option.splits list.splits)

lemma book_room_try_fields:
  assumes same: "\<And>c. append_row_error w c SHEET_NAME [Str g, Str p, Str ci, Str co, Num b] =
               append_row_error w c SHEET_NAME [Str g', Str p', Str ci', Str co', Num b']"
    and drv: "drive st = drive st'"
  shows "fst (book_room_try w g p ci co b st) = fst (book_room_try w g' p' ci' co' b' st')"
proof (cases "py_not (environ w CREDENTIALS_VAR)")
  case True
  then show ?thesis by (simp add: book_room_try_absent)
next
  case False
  then obtain s where s: "environ w CREDENTIALS_VAR = Some s" "s \<noteq> []"
    by (cases "environ w CREDENTIALS_VAR") auto
  show ?thesis
  proof (cases "json_loads w s")
    case (Inl e)
    with s show ?thesis by (simp add: book_room_try_decode_error)
  next
    case j: (Inr j)
    show ?thesis
    proof (cases "from_service_account_info w j scopes")
      case (Inl e)
      with s j show ?thesis by (simp add: book_room_try_credentials_error)
    next
      case c: (Inr c)
      obtain a1 st1 where a1: "gspread_authorize w c st = (a1, st1)" by force
      obtain a1' st1' where a1': "gspread_authorize w c st' = (a1', st1')" by force
      have e1: "a1' = a1" "drive st1 = drive st1'"
        using fst_calls_drive(1)[OF drv, of w c] drive_after_calls(1)[of w c st]
          drive_after_calls(1)[of w c st'] a1 a1' drv by simp_all
      have cl: "\<And>x. a1 = Inr x \<Longrightarrow> x = c"
        using a1 by (auto simp: gspread_authorize_def Let_def split: option.splits)
      obtain a2 st2 where a2: "client_open w c SHEET_NAME st1 = (a2, st2)" by force
      obtain a2' st2' where a2': "client_open w c SHEET_NAME st1' = (a2', st2')" by force
      have e2: "a2' = a2" "drive st2 = drive st2'"
        using fst_calls_drive(2)[OF e1(2), of w c SHEET_NAME]
          drive_after_calls(2)[of w c SHEET_NAME st1]
          drive_after_calls(2)[of w c SHEET_NAME st1'] a2 a2' e1 by simp_all
      have bk: "\<And>x. a2 = Inr x \<Longrightarrow> x = SHEET_NAME"
        using a2 by (auto simp: client_open_def Let_def split: option.splits)
      obtain a3 st3 where a3: "sheet1 w c SHEET_NAME st2 = (a3, st3)" by force
      obtain a3' st3' where a3': "sheet1 w c SHEET_NAME st2' = (a3', st3')" by force
      have e3: "a3' = a3" "drive st3 = drive st3'"
        using fst_calls_drive(3)[OF e2(2), of w c SHEET_NAME]
          drive_after_calls(3)[of w c SHEET_NAME st2]
          drive_after_calls(3)[of w c SHEET_NAME st2'] a3 a3' e2 by simp_all
      have sh: "\<And>x. a3 = Inr x \<Longrightarrow> x = SHEET_NAME"
        using a3 by (auto simp: sheet1_def Let_def split: option.splits list.splits)
      have ap: "fst (append_row w c SHEET_NAME [Str g, Str p, Str ci, Str co, Num b] st3) =
                fst (append_row w c SHEET_NAME [Str g', Str p', Str ci', Str co', Num b'] st3')"
        unfolding fst_append_row same e3(2) ..
      have L: "fst (book_room_try w g p ci co b st) =
          (case a1 of Inl e \<Rightarrow> Inl e | Inr _ \<Rightarrow>
           (case a2 of Inl e \<Rightarrow> Inl e | Inr _ \<Rightarrow>
           (case a3 of Inl e \<Rightarrow> Inl e | Inr _ \<Rightarrow>
           (case fst (append_row w c SHEET_NAME
                        [Str g, Str p, Str ci, Str co, Num b] st3) of
              Inl e \<Rightarrow> Inl e | Inr _ \<Rightarrow> Inr MSG_SUCCESS))))"
        using s j c a1 a2 a3 cl bk sh
        by (auto simp: book_room_try_def getenv_def split: sum.splits prod.splits)
      have R: "fst (book_room_try w g' p' ci' co' b' st') =
          (case a1 of Inl e \<Rightarrow> Inl e | Inr _ \<Rightarrow>
           (case a2 of Inl e \<Rightarrow> Inl e | Inr _ \<Rightarrow>
           (case a3 of Inl e \<Rightarrow> Inl e | Inr _ \<Rightarrow>
           (case fst (append_row w c SHEET_NAME
                        [Str g', Str p', Str ci', Str co', Num b'] st3') of
              Inl e \<Rightarrow> Inl e | Inr _ \<Rightarrow> Inr MSG_SUCCESS))))"
        using s j c a1' a2' a3' e1(1) e2(1) e3(1) cl bk sh
        by (auto simp: book_room_try_def getenv_def split: sum.splits prod.splits)
      show ?thesis unfolding L R ap ..
    qed
  qed
qed

lemma book_room_try_success:
  assumes "environ w CREDENTIALS_VAR = Some s" and "s \<noteq> []"
    and "json_loads w s = Inr j"
    and "from_service_account_info w j scopes = Inr c"
    and "authorize_error w c = None"
    and "open_error w c SHEET_NAME = None"
    and "sheet1_error w c SHEET_NAME = None"
    and "append_row_error w c SHEET_NAME [Str g, Str p, Str ci, Str co, Num b] = None"
    and "drive st SHEET_NAME = Some (ws # rest)"
  shows "book_room_try w g p ci co b st =
     (Inr MSG_SUCCESS,
      st\<lparr>drive := (drive st)(SHEET_NAME \<mapsto>
                 (ws @ [[Str g, Str p, Str ci, Str co, Num b]]) # rest),
         calls := calls st @
           [Authorize, OpenSpreadsheet SHEET_NAME, Sheet1 SHEET_NAME,
            AppendRow SHEET_NAME [Str g, Str p, Str ci, Str co, Num b]],
         logged := logged st @ [(INFO, ''Booking saved successfully.'')]\<rparr>)"
proof -
  let ?st3 = "st\<lparr>calls := calls st @
                  [Authorize, OpenSpreadsheet SHEET_NAME, Sheet1 SHEET_NAME]\<rparr>"
  have drv: "drive ?st3 SHEET_NAME = Some (ws # rest)"
    using assms(9) by simp
  show ?thesis
    unfolding book_room_try_reaches_append[OF assms(1-7,9)] append_row_ok[OF assms(8) drv]
    by (simp add: log_record_def)
qed

subsection \<open>A booking with valid credentials and a reachable spreadsheet\<close>

text \<open>
  Claim C1. Let the credential variable hold a non-empty text that \<^verbatim>\<open>json.loads\<close>
  decodes and from which the credentials are built, let authorization, the lookup of
  the spreadsheet "Hotel booking", its first worksheet and the append all succeed, and
  let the spreadsheet have a first worksheet \<open>ws\<close>. Then one call of \<^verbatim>\<open>book_room\<close>
  returns "Booking successfully saved to the system.", the only change to the drive
  is that the first worksheet of "Hotel booking" is \<open>ws\<close> followed by the one row
  [guest_name, phone, check_in, check_out, beds], and exactly one append is sent.
\<close>

theorem book_room_appends_one_row:
  assumes "environ w ''GOOGLE_CREDENTIALS_JSON'' = Some s" and "s \<noteq> []"
    and "json_loads w s = Inr creds_dict"
    and "from_service_account_info w creds_dict scopes = Inr creds"
    and "authorize_error w creds = None"
    and "open_error w creds ''Hotel booking'' = None"
    and "sheet1_error w creds ''Hotel booking'' = None"
    and "append_row_error w creds ''Hotel booking''
           [Str guest_name, Str phone, Str check_in, Str check_out, Num beds] = None"
    and "drive st ''Hotel booking'' = Some (ws # rest)"
  shows "book_room w guest_name phone check_in check_out beds st =
     (''Booking successfully saved to the system.'',
      st\<lparr>drive := (drive st)(''Hotel booking'' \<mapsto>
                 (ws @ [[Str guest_name, Str phone, Str check_in, Str check_out, Num beds]])
                 # rest),
         calls := calls st @
           [Authorize, OpenSpreadsheet ''Hotel booking'', Sheet1 ''Hotel booking'',
            AppendRow ''Hotel booking''
              [Str guest_name, Str phone, Str check_in, Str check_out, Num beds]],
         logged := logged st @
           [(INFO, ''Attempting to book for '' @ guest_name),
            (INFO, ''Booking saved successfully.'')]\<rparr>)"
proof -
  let ?st0 = "log_record INFO (''Attempting to book for '' @ guest_name) st"
  have env: "environ w CREDENTIALS_VAR = Some s"
    using assms(1) by (simp add: CREDENTIALS_VAR_def)
  have drv: "drive ?st0 SHEET_NAME = Some (ws # rest)"
    using assms(9) by (simp add: log_record_def SHEET_NAME_def)
  have ok: "authorize_error w creds = None" "open_error w creds SHEET_NAME = None"
    "sheet1_error w creds SHEET_NAME = None"
    "append_row_error w creds SHEET_NAME
       [Str guest_name, Str phone, Str check_in, Str check_out, Num beds] = None"
    using assms(5-8) by (simp_all add: SHEET_NAME_def)
  show ?thesis
    unfolding book_room_def Let_def
      book_room_try_success[OF env assms(2,3,4) ok drv]
    by (simp add: log_record_def MSG_SUCCESS_def SHEET_NAME_def)
qed

theorem book_room_appends_one_row_witness:
  "book_room (sample_world (Some KEY_TEXT))
      ''Rahul Sharma'' ''9999999999'' ''12 March'' ''14 March'' 2 sample_state =
     (''Booking successfully saved to the system.'',
      \<lparr>drive = [''Hotel booking'' \<mapsto>
          [[[Str ''Name'', Str ''Phone'', Str ''In'', Str ''Out'', Str ''Beds''],
            [Str ''Rahul Sharma'', Str ''9999999999'', Str ''12 March'', Str ''14 March'',
             Num 2]]]],
       calls = [Authorize, OpenSpreadsheet ''Hotel booking'', Sheet1 ''Hotel booking'',
          AppendRow ''Hotel booking''
            [Str ''Rahul Sharma'', Str ''9999999999'', Str ''12 March'', Str ''14 March'',
             Num 2]],
       logged = [(INFO, ''Attempting to book for Rahul Sharma''),
                 (INFO, ''Booking saved successfully.'')]\<rparr>)"
proof -
  let ?w = "sample_world (Some KEY_TEXT)"
  have h1: "environ ?w ''GOOGLE_CREDENTIALS_JSON'' = Some KEY_TEXT"
    by (simp add: sample_world_def CREDENTIALS_VAR_def)
  have h2: "KEY_TEXT \<noteq> []"
    by (simp add: KEY_TEXT_def)
  have h3: "json_loads ?w KEY_TEXT =
      Inr [(''type'', ''service_account''), (''client_email'', ''bot@example.com'')]"
    by (simp add: sample_world_def sample_json_loads_def)
  have h4: "from_service_account_info ?w
      [(''type'', ''service_account''), (''client_email'', ''bot@example.com'')] scopes =
      Inr ''bot@example.com''"
    by (simp add: sample_world_def sample_from_info_def)
  have h5: "authorize_error ?w ''bot@example.com'' = None"
    and h6: "open_error ?w ''bot@example.com'' ''Hotel booking'' = None"
    and h7: "sheet1_error ?w ''bot@example.com'' ''Hotel booking'' = None"
    and h8: "append_row_error ?w ''bot@example.com'' ''Hotel booking''
       [Str ''Rahul Sharma'', Str ''9999999999'', Str ''12 March'', Str ''14 March'',
        Num 2] = None"
    by (simp_all add: sample_world_def)
  have h9: "drive sample_state ''Hotel booking'' =
      Some ([[Str ''Name'', Str ''Phone'', Str ''In'', Str ''Out'', Str ''Beds'']] # [])"
    by (simp add: sample_state_def SHEET_NAME_def)
  show ?thesis
    using book_room_appends_one_row[OF h1 h2 h3 h4 h5 h6 h7 h8 h9]
    by (simp add: sample_state_def SHEET_NAME_def)
qed

subsection \<open>The credential variable is unset\<close>

text \<open>
  Claim C2. If \<^verbatim>\<open>GOOGLE_CREDENTIALS_JSON\<close> is unset, \<^verbatim>\<open>book_room\<close> returns
  "Error: System configuration error (Missing Credentials)." for every input, makes
  no call to the spreadsheet client (no authorization, no open, no append), leaves
  the spreadsheets as they were, and logs the error.
\<close>

theorem book_room_unset_variable:
  assumes "environ w ''GOOGLE_CREDENTIALS_JSON'' = None"
  shows "fst (book_room w guest_name phone check_in check_out beds st) =
           ''Error: System configuration error (Missing Credentials).''
       \<and> calls (snd (book_room w guest_name phone check_in check_out beds st)) = calls st
       \<and> drive (snd (book_room w guest_name phone check_in check_out beds st)) = drive st
       \<and> logged (snd (book_room w guest_name phone check_in check_out beds st)) =
           logged st @
             [(INFO, ''Attempting to book for '' @ guest_name),
              (ERROR, ''Missing GOOGLE_CREDENTIALS_JSON environment variable.'')]"
proof -
  have "py_not (environ w CREDENTIALS_VAR)"
    using assms by (simp add: CREDENTIALS_VAR_def)
  then show ?thesis
    by (simp add: book_room_def book_room_try_absent log_record_def MSG_MISSING_def)
qed

theorem book_room_unset_variable_witness:
  "fst (book_room (sample_world None)
          ''Rahul Sharma'' ''9999999999'' ''12 March'' ''14 March'' 2 sample_state) =
     ''Error: System configuration error (Missing Credentials).''
   \<and> calls (snd (book_room (sample_world None)
          ''Rahul Sharma'' ''9999999999'' ''12 March'' ''14 March'' 2 sample_state)) = []
   \<and> drive (snd (book_room (sample_world None)
          ''Rahul Sharma'' ''9999999999'' ''12 March'' ''14 March'' 2 sample_state)) =
       drive sample_state"
proof -
  have h: "environ (sample_world None) ''GOOGLE_CREDENTIALS_JSON'' = None"
    by (simp add: sample_world_def)
  show ?thesis
    using book_room_unset_variable[OF h, of "''Rahul Sharma''" "''9999999999''"
        "''12 March''" "''14 March''" 2 sample_state]
    by (simp add: sample_state_def)
qed

subsection \<open>The credential variable holds text that is not JSON\<close>

text \<open>
  Claim C3, as stated, fails in two ways. The empty text is not valid JSON
  (\<^verbatim>\<open>json.loads\<close> raises \<^verbatim>\<open>JSONDecodeError\<close> on it), yet with the variable set to
  the empty text the tool returns the missing-credentials message, because
  \<^verbatim>\<open>not json_creds_string\<close> holds and \<^verbatim>\<open>json.loads\<close> is never reached. And the text
  \<^verbatim>\<open>NaN\<close> is not valid JSON either, yet \<^verbatim>\<open>json.loads\<close> decodes it; the failure then
  comes from the credential construction and the tool returns the generic failure
  message.
\<close>

theorem book_room_invalid_json_counterexample:
  "environ (sample_world (Some '''')) ''GOOGLE_CREDENTIALS_JSON'' = Some ''''
   \<and> json_loads (sample_world (Some '''')) '''' =
       Inl (JSONDecodeError ''Expecting value: line 1 column 1 (char 0)'')
   \<and> fst (book_room (sample_world (Some ''''))
            ''Rahul Sharma'' ''9999999999'' ''12 March'' ''14 March'' 2 sample_state) \<noteq>
       ''Error: System configuration error (Invalid Credentials).''
   \<and> fst (book_room (sample_world (Some ''''))
            ''Rahul Sharma'' ''9999999999'' ''12 March'' ''14 March'' 2 sample_state) =
       ''Error: System configuration error (Missing Credentials).''
   \<and> environ nan_world ''GOOGLE_CREDENTIALS_JSON'' = Some ''NaN''
   \<and> json_loads nan_world ''NaN'' = Inr PyFloatNaN
   \<and> fst (book_room nan_world
            ''Rahul Sharma'' ''9999999999'' ''12 March'' ''14 March'' 2 sample_state) \<noteq>
       ''Error: System configuration error (Invalid Credentials).''
   \<and> fst (book_room nan_world
            ''Rahul Sharma'' ''9999999999'' ''12 March'' ''14 March'' 2 sample_state) =
       ''An error occurred while saving the booking.''"
proof -
  have empty: "fst (book_room (sample_world (Some ''''))
            ''Rahul Sharma'' ''9999999999'' ''12 March'' ''14 March'' 2 sample_state) =
       ''Error: System configuration error (Missing Credentials).''"
    by (simp add: sample_world_def CREDENTIALS_VAR_def book_room_def book_room_try_def
          getenv_def log_record_def MSG_MISSING_def)
  have env: "environ nan_world CREDENTIALS_VAR = Some ''NaN''"
    by (simp add: nan_world_def)
  have ne: "''NaN'' \<noteq> []"
    by simp
  have dec: "json_loads nan_world ''NaN'' = Inr PyFloatNaN"
    by (simp add: nan_world_def nan_json_loads_def)
  have cr: "from_service_account_info nan_world PyFloatNaN scopes =
      Inl (OtherException
            (CHR 0x27 # ''float'' @ CHR 0x27 # '' object has no attribute '' @
             CHR 0x27 # ''keys'' @ [CHR 0x27]))"
    by (simp add: nan_world_def)
  have nan: "fst (book_room nan_world
            ''Rahul Sharma'' ''9999999999'' ''12 March'' ''14 March'' 2 sample_state) =
       ''An error occurred while saving the booking.''"
    by (simp add: book_room_def book_room_try_credentials_error[OF env ne dec cr]
          MSG_FAILURE_def)
  have e1: "environ (sample_world (Some '''')) ''GOOGLE_CREDENTIALS_JSON'' = Some ''''"
    by (simp add: sample_world_def CREDENTIALS_VAR_def)
  have e2: "json_loads (sample_world (Some '''')) '''' =
       Inl (JSONDecodeError ''Expecting value: line 1 column 1 (char 0)'')"
    by (simp add: sample_world_def sample_json_loads_def KEY_TEXT_def)
  have e3: "environ nan_world ''GOOGLE_CREDENTIALS_JSON'' = Some ''NaN''"
    using env by (simp add: CREDENTIALS_VAR_def)
  show ?thesis
    unfolding empty nan using e1 e2 e3 dec by simp
qed

text \<open>
  Claim C3, amended. If \<^verbatim>\<open>GOOGLE_CREDENTIALS_JSON\<close> is set to a non-empty text on
  which \<^verbatim>\<open>json.loads\<close> raises \<^verbatim>\<open>JSONDecodeError\<close>, then \<^verbatim>\<open>book_room\<close> returns
  "Error: System configuration error (Invalid Credentials)." for every input, which
  differs from the missing-credentials message, makes no call to the spreadsheet
  client and leaves the spreadsheets as they were.
\<close>

theorem book_room_invalid_json:
  assumes "environ w ''GOOGLE_CREDENTIALS_JSON'' = Some s" and "s \<noteq> []"
    and "json_loads w s = Inl (JSONDecodeError m)"
  shows "fst (book_room w guest_name phone check_in check_out beds st) =
           ''Error: System configuration error (Invalid Credentials).''
       \<and> fst (book_room w guest_name phone check_in check_out beds st) \<noteq>
           ''Error: System configuration error (Missing Credentials).''
       \<and> calls (snd (book_room w guest_name phone check_in check_out beds st)) = calls st
       \<and> drive (snd (book_room w guest_name phone check_in check_out beds st)) = drive st"
proof -
  have env: "environ w CREDENTIALS_VAR = Some s"
    using assms(1) by (simp add: CREDENTIALS_VAR_def)
  show ?thesis
    by (simp add: book_room_def book_room_try_decode_error[OF env assms(2,3)]
          log_record_def MSG_INVALID_def)
qed

theorem book_room_invalid_json_witness:
  "fst (book_room (sample_world (Some ''not-json''))
          ''Rahul Sharma'' ''9999999999'' ''12 March'' ''14 March'' 2 sample_state) =
     ''Error: System configuration error (Invalid Credentials).''
   \<and> calls (snd (book_room (sample_world (Some ''not-json''))
          ''Rahul Sharma'' ''9999999999'' ''12 March'' ''14 March'' 2 sample_state)) = []"
proof -
  let ?w = "sample_world (Some ''not-json'')"
  have h1: "environ ?w ''GOOGLE_CREDENTIALS_JSON'' = Some ''not-json''"
    by (simp add: sample_world_def CREDENTIALS_VAR_def)
  have h2: "''not-json'' \<noteq> []"
    by simp
  have h3: "json_loads ?w ''not-json'' =
      Inl (JSONDecodeError ''Expecting value: line 1 column 1 (char 0)'')"
    by (simp add: sample_world_def sample_json_loads_def KEY_TEXT_def)
  show ?thesis
    using book_room_invalid_json[OF h1 h2 h3, of "''Rahul Sharma''" "''9999999999''"
        "''12 March''" "''14 March''" 2 sample_state]
    by (simp add: sample_state_def)
qed

subsection \<open>Every outcome is a result string\<close>

text \<open>
  Claim C4. Whatever the environment and the services answer, \<^verbatim>\<open>book_room\<close> returns
  one of four strings: the success message, the missing-credentials message, the
  invalid-credentials message or the generic failure message. An exception that
  leaves the \<^verbatim>\<open>try\<close> block (from decoding, credential construction, authorization,
  sheet lookup or append) is turned into the invalid-credentials message when it is a
  \<^verbatim>\<open>JSONDecodeError\<close> and into the generic failure message otherwise; a value returned
  in the block is the result.
\<close>

theorem book_room_never_raises:
  "fst (book_room w guest_name phone check_in check_out beds st) \<in>
     {''Booking successfully saved to the system.'',
      ''Error: System configuration error (Missing Credentials).'',
      ''Error: System configuration error (Invalid Credentials).'',
      ''An error occurred while saving the booking.''}
   \<and> (case fst (book_room_try w guest_name phone check_in check_out beds
                   (log_record INFO (''Attempting to book for '' @ guest_name) st)) of
        Inr result \<Rightarrow>
          fst (book_room w guest_name phone check_in check_out beds st) = result
      | Inl (JSONDecodeError m) \<Rightarrow>
          fst (book_room w guest_name phone check_in check_out beds st) =
            ''Error: System configuration error (Invalid Credentials).''
      | Inl (OtherException m) \<Rightarrow>
          fst (book_room w guest_name phone check_in check_out beds st) =
            ''An error occurred while saving the booking.'')"
proof -
  let ?r = "fst (book_room_try w guest_name phone check_in check_out beds
                   (log_record INFO (''Attempting to book for '' @ guest_name) st))"
  have res: "fst (book_room w guest_name phone check_in check_out beds st) = handled ?r"
    by (rule book_room_handled)
  have ret: "\<And>r. ?r = Inr r \<Longrightarrow> r = MSG_MISSING \<or> r = MSG_SUCCESS"
    using book_room_try_returns by (metis prod.collapse)
  have "handled ?r \<in> {MSG_SUCCESS, MSG_MISSING, MSG_INVALID, MSG_FAILURE}"
  proof (cases ?r)
    case (Inl e)
    then show ?thesis by (cases e) simp_all
  next
    case (Inr r)
    with ret[OF Inr] show ?thesis by auto
  qed
  moreover have "case ?r of
        Inr result \<Rightarrow> handled ?r = result
      | Inl (JSONDecodeError m) \<Rightarrow> handled ?r = MSG_INVALID
      | Inl (OtherException m) \<Rightarrow> handled ?r = MSG_FAILURE"
    by (simp split: sum.splits exn.splits)
  ultimately show ?thesis
    unfolding res MSG_SUCCESS_def MSG_MISSING_def MSG_INVALID_def MSG_FAILURE_def
    by simp
qed

subsection \<open>No validation of the booking fields\<close>

text \<open>
  Claim C5. The tool inspects none of its five fields. First, its result depends on
  the fields only through what the service answers to the append: two tuples to
  which the service gives the same answer get the same result string, so no value of
  a field (a bed count above 2, zero or negative, an empty name, ...) makes the tool
  itself refuse. Second, once the credentials are built and the first worksheet of
  "Hotel booking" is reached, the append is sent with exactly the row
  [guest_name, phone, check_in, check_out, beds], and when the service accepts it the
  tool returns the success message and that row is the last of the worksheet.
\<close>

theorem book_room_no_validation:
  "((\<forall>c. append_row_error w c ''Hotel booking''
            [Str guest_name, Str phone, Str check_in, Str check_out, Num beds] =
          append_row_error w c ''Hotel booking''
            [Str guest_name', Str phone', Str check_in', Str check_out', Num beds']) \<longrightarrow>
      fst (book_room w guest_name phone check_in check_out beds st) =
      fst (book_room w guest_name' phone' check_in' check_out' beds' st))
   \<and> (environ w ''GOOGLE_CREDENTIALS_JSON'' = Some s \<and> s \<noteq> [] \<and>
      json_loads w s = Inr creds_dict \<and>
      from_service_account_info w creds_dict scopes = Inr creds \<and>
      authorize_error w creds = None \<and>
      open_error w creds ''Hotel booking'' = None \<and>
      sheet1_error w creds ''Hotel booking'' = None \<and>
      drive st ''Hotel booking'' = Some (ws # rest) \<longrightarrow>
      calls (snd (book_room w guest_name phone check_in check_out beds st)) =
        calls st @
          [Authorize, OpenSpreadsheet ''Hotel booking'', Sheet1 ''Hotel booking'',
           AppendRow ''Hotel booking''
             [Str guest_name, Str phone, Str check_in, Str check_out, Num beds]]
      \<and> (append_row_error w creds ''Hotel booking''
            [Str guest_name, Str phone, Str check_in, Str check_out, Num beds] = None \<longrightarrow>
          fst (book_room w guest_name phone check_in check_out beds st) =
            ''Booking successfully saved to the system.''
          \<and> drive (snd (book_room w guest_name phone check_in check_out beds st))
              ''Hotel booking'' =
            Some ((ws @ [[Str guest_name, Str phone, Str check_in, Str check_out,
                          Num beds]]) # rest)))"
proof (intro conjI impI)
  let ?row = "[Str guest_name, Str phone, Str check_in, Str check_out, Num beds]"
  let ?st0 = "log_record INFO (''Attempting to book for '' @ guest_name) st"
  {
    assume "\<forall>c. append_row_error w c ''Hotel booking'' ?row =
          append_row_error w c ''Hotel booking''
            [Str guest_name', Str phone', Str check_in', Str check_out', Num beds']"
    then have same: "\<And>c. append_row_error w c SHEET_NAME ?row =
          append_row_error w c SHEET_NAME
            [Str guest_name', Str phone', Str check_in', Str check_out', Num beds']"
      by (simp add: SHEET_NAME_def)
    have drv: "drive ?st0 =
        drive (log_record INFO (''Attempting to book for '' @ guest_name') st)"
      by (simp add: log_record_def)
    show "fst (book_room w guest_name phone check_in check_out beds st) =
          fst (book_room w guest_name' phone' check_in' check_out' beds' st)"
      unfolding book_room_handled book_room_try_fields[OF same drv] ..
  }
  assume pre: "environ w ''GOOGLE_CREDENTIALS_JSON'' = Some s \<and> s \<noteq> [] \<and>
      json_loads w s = Inr creds_dict \<and>
      from_service_account_info w creds_dict scopes = Inr creds \<and>
      authorize_error w creds = None \<and>
      open_error w creds ''Hotel booking'' = None \<and>
      sheet1_error w creds ''Hotel booking'' = None \<and>
      drive st ''Hotel booking'' = Some (ws # rest)"
  then have env: "environ w CREDENTIALS_VAR = Some s" and ne: "s \<noteq> []"
    and js: "json_loads w s = Inr creds_dict"
    and cr: "from_service_account_info w creds_dict scopes = Inr creds"
    and ok: "authorize_error w creds = None" "open_error w creds SHEET_NAME = None"
      "sheet1_error w creds SHEET_NAME = None"
    and drv: "drive ?st0 SHEET_NAME = Some (ws # rest)"
    by (simp_all add: CREDENTIALS_VAR_def SHEET_NAME_def log_record_def)
  note reach = book_room_try_reaches_append[OF env ne js cr ok drv,
      of guest_name phone check_in check_out beds]
  show "calls (snd (book_room w guest_name phone check_in check_out beds st)) =
        calls st @
          [Authorize, OpenSpreadsheet ''Hotel booking'', Sheet1 ''Hotel booking'',
           AppendRow ''Hotel booking'' ?row]"
  proof (cases "append_row_error w creds SHEET_NAME ?row")
    case None
    show ?thesis
      unfolding book_room_def Let_def
        book_room_try_success[OF env ne js cr ok None drv]
      by (simp add: log_record_def SHEET_NAME_def)
  next
    case (Some e)
    show ?thesis
      unfolding book_room_def Let_def reach append_row_raises[OF Some]
      by (cases e) (simp_all add: log_record_def SHEET_NAME_def)
  qed
  assume "append_row_error w creds ''Hotel booking'' ?row = None"
  then have ap: "append_row_error w creds SHEET_NAME ?row = None"
    by (simp add: SHEET_NAME_def)
  show "fst (book_room w guest_name phone check_in check_out beds st) =
          ''Booking successfully saved to the system.''"
    unfolding book_room_def Let_def book_room_try_success[OF env ne js cr ok ap drv]
    by (simp add: MSG_SUCCESS_def)
  show "drive (snd (book_room w guest_name phone check_in check_out beds st))
          ''Hotel booking'' = Some ((ws @ [?row]) # rest)"
    unfolding book_room_def Let_def book_room_try_success[OF env ne js cr ok ap drv]
    by (simp add: log_record_def SHEET_NAME_def)
qed

theorem book_room_no_validation_witness:
  "fst (book_room (sample_world (Some KEY_TEXT)) '''' ''abc'' ''never'' ''yesterday'' (- 1)
          sample_state) =
   fst (book_room (sample_world (Some KEY_TEXT))
          ''Rahul Sharma'' ''9999999999'' ''12 March'' ''14 March'' 3 sample_state)
   \<and> fst (book_room (sample_world (Some KEY_TEXT)) '''' ''abc'' ''never'' ''yesterday'' (- 1)
          sample_state) = ''Booking successfully saved to the system.''
   \<and> drive (snd (book_room (sample_world (Some KEY_TEXT)) '''' ''abc'' ''never''
          ''yesterday'' (- 1) sample_state)) ''Hotel booking'' =
       Some [[[Str ''Name'', Str ''Phone'', Str ''In'', Str ''Out'', Str ''Beds''],
              [Str '''', Str ''abc'', Str ''never'', Str ''yesterday'', Num (- 1)]]]"
proof -
  let ?w = "sample_world (Some KEY_TEXT)"
  let ?j = "[(''type'', ''service_account''), (''client_email'', ''bot@example.com'')]"
  have same: "\<forall>c. append_row_error ?w c ''Hotel booking''
                 [Str '''', Str ''abc'', Str ''never'', Str ''yesterday'', Num (- 1)] =
               append_row_error ?w c ''Hotel booking''
                 [Str ''Rahul Sharma'', Str ''9999999999'', Str ''12 March'',
                  Str ''14 March'', Num 3]"
    by (simp add: sample_world_def)
  have pre: "environ ?w ''GOOGLE_CREDENTIALS_JSON'' = Some KEY_TEXT \<and> KEY_TEXT \<noteq> [] \<and>
      json_loads ?w KEY_TEXT = Inr ?j \<and>
      from_service_account_info ?w ?j scopes = Inr ''bot@example.com'' \<and>
      authorize_error ?w ''bot@example.com'' = None \<and>
      open_error ?w ''bot@example.com'' ''Hotel booking'' = None \<and>
      sheet1_error ?w ''bot@example.com'' ''Hotel booking'' = None \<and>
      drive sample_state ''Hotel booking'' =
        Some ([[Str ''Name'', Str ''Phone'', Str ''In'', Str ''Out'', Str ''Beds'']] # [])"
    by (simp add: sample_world_def CREDENTIALS_VAR_def sample_json_loads_def
          sample_from_info_def sample_state_def SHEET_NAME_def KEY_TEXT_def)
  have acc: "append_row_error ?w ''bot@example.com'' ''Hotel booking''
      [Str '''', Str ''abc'', Str ''never'', Str ''yesterday'', Num (- 1)] = None"
    by (simp add: sample_world_def)
  note inst = book_room_no_validation[of ?w "''''" "''abc''" "''never''" "''yesterday''"
      "- 1" "''Rahul Sharma''" "''9999999999''" "''12 March''" "''14 March''" 3
      sample_state KEY_TEXT ?j "''bot@example.com''"
      "[[Str ''Name'', Str ''Phone'', Str ''In'', Str ''Out'', Str ''Beds'']]" "[]"]
  note part1 = inst[THEN conjunct1, THEN mp, OF same]
  note part2 = inst[THEN conjunct2, THEN mp, OF pre, THEN conjunct2, THEN mp, OF acc]
  from part1 part2 show ?thesis
    by (simp only: append_Cons append_Nil simp_thms)
qed

subsection \<open>The credential variable is set but empty\<close>

text \<open>
  Claim C9. If \<^verbatim>\<open>GOOGLE_CREDENTIALS_JSON\<close> is set to the empty string, \<^verbatim>\<open>book_room\<close>
  takes the missing-credentials branch: it returns
  "Error: System configuration error (Missing Credentials).", not the
  invalid-credentials message, and makes no call to the spreadsheet client.
\<close>

theorem book_room_empty_variable:
  assumes "environ w ''GOOGLE_CREDENTIALS_JSON'' = Some ''''"
  shows "fst (book_room w guest_name phone check_in check_out beds st) =
           ''Error: System configuration error (Missing Credentials).''
       \<and> fst (book_room w guest_name phone check_in check_out beds st) \<noteq>
           ''Error: System configuration error (Invalid Credentials).''
       \<and> calls (snd (book_room w guest_name phone check_in check_out beds st)) = calls st
       \<and> drive (snd (book_room w guest_name phone check_in check_out beds st)) = drive st"
proof -
  have "py_not (environ w CREDENTIALS_VAR)"
    using assms by (simp add: CREDENTIALS_VAR_def)
  then show ?thesis
    by (simp add: book_room_def book_room_try_absent log_record_def MSG_MISSING_def)
qed

theorem book_room_empty_variable_witness:
  "fst (book_room (sample_world (Some ''''))
          '''' ''abc'' ''never'' ''yesterday'' 0 sample_state) =
     ''Error: System configuration error (Missing Credentials).''
   \<and> calls (snd (book_room (sample_world (Some ''''))
          '''' ''abc'' ''never'' ''yesterday'' 0 sample_state)) = calls sample_state"
proof -
  have h: "environ (sample_world (Some '''')) ''GOOGLE_CREDENTIALS_JSON'' = Some ''''"
    by (simp add: sample_world_def CREDENTIALS_VAR_def)
  show ?thesis
    using book_room_empty_variable[OF h, of "''''" "''abc''" "''never''" "''yesterday''" 0
        sample_state]
    by simp
qed

subsection \<open>Valid JSON that is not a service-account key\<close>

text \<open>
  Claim C10. If \<^verbatim>\<open>GOOGLE_CREDENTIALS_JSON\<close> holds text that \<^verbatim>\<open>json.loads\<close> decodes
  but from which \<^verbatim>\<open>Credentials.from_service_account_info\<close> cannot build credentials
  (it raises an exception that is not a \<^verbatim>\<open>JSONDecodeError\<close>, as it does for an
  object without the key fields), then \<^verbatim>\<open>book_room\<close> returns
  "An error occurred while saving the booking.", neither of the two
  configuration-error messages; the exception is logged by the catch-all handler,
  no call reaches the spreadsheet client and no row is appended.
\<close>

theorem book_room_malformed_key:
  assumes "environ w ''GOOGLE_CREDENTIALS_JSON'' = Some s" and "s \<noteq> []"
    and "json_loads w s = Inr creds_dict"
    and "from_service_account_info w creds_dict scopes = Inl (OtherException m)"
  shows "fst (book_room w guest_name phone check_in check_out beds st) =
           ''An error occurred while saving the booking.''
       \<and> fst (book_room w guest_name phone check_in check_out beds st) \<noteq>
           ''Error: System configuration error (Missing Credentials).''
       \<and> fst (book_room w guest_name phone check_in check_out beds st) \<noteq>
           ''Error: System configuration error (Invalid Credentials).''
       \<and> calls (snd (book_room w guest_name phone check_in check_out beds st)) = calls st
       \<and> drive (snd (book_room w guest_name phone check_in check_out beds st)) = drive st
       \<and> logged (snd (book_room w guest_name phone check_in check_out beds st)) =
           logged st @
             [(INFO, ''Attempting to book for '' @ guest_name),
              (ERROR, ''Failed to save booking: '' @ m)]"
proof -
  have env: "environ w CREDENTIALS_VAR = Some s"
    using assms(1) by (simp add: CREDENTIALS_VAR_def)
  show ?thesis
    by (simp add: book_room_def book_room_try_credentials_error[OF env assms(2,3,4)]
          log_record_def MSG_FAILURE_def)
qed

theorem book_room_malformed_key_witness:
  "fst (book_room (sample_world (Some ''{}''))
          ''Rahul Sharma'' ''9999999999'' ''12 March'' ''14 March'' 2 sample_state) =
     ''An error occurred while saving the booking.''
   \<and> calls (snd (book_room (sample_world (Some ''{}''))
          ''Rahul Sharma'' ''9999999999'' ''12 March'' ''14 March'' 2 sample_state)) = []
   \<and> drive (snd (book_room (sample_world (Some ''{}''))
          ''Rahul Sharma'' ''9999999999'' ''12 March'' ''14 March'' 2 sample_state)) =
       drive sample_state"
proof -
  let ?w = "sample_world (Some ''{}'')"
  have h1: "environ ?w ''GOOGLE_CREDENTIALS_JSON'' = Some ''{}''"
    by (simp add: sample_world_def CREDENTIALS_VAR_def)
  have h2: "''{}'' \<noteq> []"
    by simp
  have h3: "json_loads ?w ''{}'' = Inr []"
    by (simp add: sample_world_def sample_json_loads_def KEY_TEXT_def)
  have h4: "from_service_account_info ?w [] scopes =
      Inl (OtherException ''Service account info was not in the expected format'')"
    by (simp add: sample_world_def sample_from_info_def)
  show ?thesis
    using book_room_malformed_key[OF h1 h2 h3 h4, of "''Rahul Sharma''" "''9999999999''"
        "''12 March''" "''14 March''" 2 sample_state]
    by (simp add: sample_state_def)
qed

subsection \<open>Steps of \<^verbatim>\<open>my_agent\<close>\<close>

lemma make_session_ok:
  "stt_error rt = None \<Longrightarrow> llm_error rt = None \<Longrightarrow> tts_error rt = None \<Longrightarrow>
   userdata ctx ''vad'' = Some v \<Longrightarrow> session_error rt = None \<Longrightarrow>
   make_session rt ctx =
     Inr \<lparr>stt_model = ''assemblyai/universal-streaming'', stt_language = ''en'',
          llm_model = ''openai/gpt-4.1-mini'', tts_target_language_code = ''en-IN'',
          tts_speaker = ''anushka'', vad = v, preemptive_generation = True\<rparr>"
  by (simp add: make_session_def)

lemma make_start_arguments_ok:
  "assistant_error rt = None \<Longrightarrow> audio_input_error rt = None \<Longrightarrow>
   room_options_error rt = None \<Longrightarrow>
   make_start_arguments rt =
     Inr (Assistant, \<lparr>audio_input = \<lparr>noise_cancellation = noise_cancellation_selector\<rparr>\<rparr>)"
  by (simp add: make_start_arguments_def)

lemma make_start_arguments_Inr:
  "make_start_arguments rt = Inr (a, opts) \<Longrightarrow>
   a = Assistant \<and>
   opts = \<lparr>audio_input = \<lparr>noise_cancellation = noise_cancellation_selector\<rparr>\<rparr>"
  by (auto simp: make_start_arguments_def split: option.splits)

text \<open>
  The calls issued in any run: none, or the start alone, or the start and the
  greeting, or the start, the greeting and the connect.
\<close>

lemma my_agent_issued:
  "snd (snd (my_agent rt ctx)) = [] \<or>
   (\<exists>session. snd (snd (my_agent rt ctx)) =
      SessionStart session Assistant (room_name ctx)
        \<lparr>audio_input = \<lparr>noise_cancellation = noise_cancellation_selector\<rparr>\<rparr>
      # (case start_error rt of
           Some e \<Rightarrow> []
         | None \<Rightarrow>
             SessionSay GREETING
             # (case say_error rt of Some e \<Rightarrow> [] | None \<Rightarrow> [CtxConnect])))"
proof (cases "make_session rt (ctx\<lparr>log_context_fields := [(''room'', room_name ctx)]\<rparr>)")
  case (Inl e)
  then show ?thesis by (simp add: my_agent_def)
next
  case s: (Inr session)
  show ?thesis
  proof (cases "make_start_arguments rt")
    case (Inl e)
    with s show ?thesis by (simp add: my_agent_def)
  next
    case (Inr args)
    obtain a opts where args: "args = (a, opts)"
      by (cases args)
    from make_start_arguments_Inr[OF Inr[unfolded args]]
    have a: "a = Assistant"
      and opts: "opts = \<lparr>audio_input = \<lparr>noise_cancellation = noise_cancellation_selector\<rparr>\<rparr>"
      by simp_all
    show ?thesis
      using s Inr args a opts
      by (simp add: my_agent_def Let_def split: option.splits)
  qed
qed

subsection \<open>The noise-cancellation selector\<close>

text \<open>
  Claim C7. The selector that \<^verbatim>\<open>my_agent\<close> passes to \<^verbatim>\<open>session.start\<close> depends on
  the participant's kind only: for a participant of kind SIP it gives the telephony
  profile \<^verbatim>\<open>BVCTelephony\<close>, for a participant of any other kind the generic profile
  \<^verbatim>\<open>BVC\<close>. Every \<^verbatim>\<open>session.start\<close> that \<^verbatim>\<open>my_agent\<close> issues carries this selector as
  the noise cancellation of its audio input options.
\<close>

theorem noise_cancellation_by_kind:
  "(kind (participant params) = PARTICIPANT_KIND_SIP \<longrightarrow>
      noise_cancellation_selector params = BVCTelephony)
   \<and> (kind (participant params) \<noteq> PARTICIPANT_KIND_SIP \<longrightarrow>
      noise_cancellation_selector params = BVC)
   \<and> (kind (participant params) = kind (participant params') \<longrightarrow>
      noise_cancellation_selector params = noise_cancellation_selector params')
   \<and> (SessionStart session a r opts \<in> set (snd (snd (my_agent rt ctx))) \<longrightarrow>
      noise_cancellation (audio_input opts) = noise_cancellation_selector)"
proof (intro conjI impI)
  assume mem: "SessionStart session a r opts \<in> set (snd (snd (my_agent rt ctx)))"
  from my_agent_issued[of rt ctx] mem
  show "noise_cancellation (audio_input opts) = noise_cancellation_selector"
    by (auto split: option.splits)
qed (simp_all add: noise_cancellation_selector_def)

theorem noise_cancellation_by_kind_witness:
  "noise_cancellation_selector
     \<lparr>participant = \<lparr>identity = ''sip_caller'', kind = PARTICIPANT_KIND_SIP\<rparr>\<rparr> =
     BVCTelephony
   \<and> noise_cancellation_selector
     \<lparr>participant = \<lparr>identity = ''web_user'', kind = PARTICIPANT_KIND_OTHER 0\<rparr>\<rparr> = BVC
   \<and> (\<exists>session opts. hd (snd (snd (my_agent sample_runtime sample_context))) =
         SessionStart session Assistant ''call-1'' opts
       \<and> noise_cancellation (audio_input opts) = noise_cancellation_selector)"
proof -
  let ?sip = "\<lparr>participant = \<lparr>identity = ''sip_caller'', kind = PARTICIPANT_KIND_SIP\<rparr>\<rparr>"
  let ?web = "\<lparr>participant = \<lparr>identity = ''web_user'', kind = PARTICIPANT_KIND_OTHER 0\<rparr>\<rparr>"
  have k1: "kind (participant ?sip) = PARTICIPANT_KIND_SIP"
    by simp
  have k2: "kind (participant ?web) \<noteq> PARTICIPANT_KIND_SIP"
    by simp
  obtain session opts where
    run: "snd (snd (my_agent sample_runtime sample_context)) =
      [SessionStart session Assistant ''call-1'' opts, SessionSay GREETING, CtxConnect]"
    by (simp add: my_agent_def make_session_def make_start_arguments_def
          sample_runtime_def sample_context_def prewarm_def)
  then have mem: "SessionStart session Assistant ''call-1'' opts \<in>
      set (snd (snd (my_agent sample_runtime sample_context)))"
    by simp
  note sel = noise_cancellation_by_kind[where session = session and a = Assistant
      and r = "''call-1''" and opts = opts and rt = sample_runtime
      and ctx = sample_context,
      THEN conjunct2, THEN conjunct2, THEN conjunct2, THEN mp, OF mem]
  note sip = noise_cancellation_by_kind[where params = ?sip,
      THEN conjunct1, THEN mp, OF k1]
  note web = noise_cancellation_by_kind[where params = ?web,
      THEN conjunct2, THEN conjunct1, THEN mp, OF k2]
  from run sel have "\<exists>session opts.
      hd (snd (snd (my_agent sample_runtime sample_context))) =
        SessionStart session Assistant ''call-1'' opts
      \<and> noise_cancellation (audio_input opts) = noise_cancellation_selector"
    by simp
  with sip web show ?thesis
    by (intro conjI)
qed

subsection \<open>The greeting comes before the connect\<close>

text \<open>
  Claim C8, as stated, fails: \<^verbatim>\<open>my_agent\<close> has no handler, so in a session
  bootstrap in which \<^verbatim>\<open>session.start\<close> raises, the handler ends there and issues no
  greeting at all; and in one in which a pipeline constructor raises, it issues no
  call at all, although the detector is in the user data.
\<close>

theorem greeting_before_connect_counterexample:
  "start_error failing_start_runtime = Some (OtherException ''session.start failed'')
   \<and> fst (my_agent failing_start_runtime sample_context) =
       Inl (OtherException ''session.start failed'')
   \<and> filter is_say (snd (snd (my_agent failing_start_runtime sample_context))) = []
   \<and> length (snd (snd (my_agent failing_start_runtime sample_context))) = 1
   \<and> userdata sample_context ''vad'' = Some 0
   \<and> fst (my_agent failing_stt_runtime sample_context) =
       Inl (OtherException ''inference.STT failed'')
   \<and> snd (snd (my_agent failing_stt_runtime sample_context)) = []"
  by (simp add: my_agent_def make_session_def make_start_arguments_def
        failing_start_runtime_def failing_stt_runtime_def sample_runtime_def
        sample_context_def prewarm_def)

text \<open>
  Claim C8, amended. In every session bootstrap in which the setup (the three
  pipeline constructors, the lookup of the detector in the user data, the
  constructors of the session, of the agent and of the two option objects) and
  \<^verbatim>\<open>session.start\<close> do not raise, the calls issued are the start of the session, then
  the pinned greeting, then (when the greeting does not raise) the connect, and
  nothing else: the greeting is issued exactly once, after the start and before the
  connect. In every bootstrap whatsoever at most one greeting is issued, and a connect
  is only ever issued directly after the start and the greeting.
\<close>

theorem greeting_before_connect:
  assumes "stt_error rt = None" and "llm_error rt = None" and "tts_error rt = None"
    and "userdata ctx ''vad'' = Some v"
    and "session_error rt = None" and "assistant_error rt = None"
    and "audio_input_error rt = None" and "room_options_error rt = None"
    and "start_error rt = None"
  shows "(\<exists>session. snd (snd (my_agent rt ctx)) =
            SessionStart session Assistant (room_name ctx)
              \<lparr>audio_input = \<lparr>noise_cancellation = noise_cancellation_selector\<rparr>\<rparr>
            # SessionSay GREETING
            # (if say_error rt = None then [CtxConnect] else []))
       \<and> filter is_say (snd (snd (my_agent rt ctx))) = [SessionSay GREETING]
       \<and> length (filter is_say (snd (snd (my_agent rt' ctx')) :: 'a step list)) \<le> 1
       \<and> (CtxConnect \<in> set (snd (snd (my_agent rt' ctx')) :: 'a step list) \<longrightarrow>
            (\<exists>start. snd (snd (my_agent rt' ctx')) =
               [start, SessionSay GREETING, CtxConnect] \<and> \<not> is_say start
               \<and> start \<noteq> CtxConnect))"
proof (intro conjI)
  have vad: "userdata (ctx\<lparr>log_context_fields := [(''room'', room_name ctx)]\<rparr>) ''vad'' =
      Some v"
    using assms(4) by simp
  have run: "snd (snd (my_agent rt ctx)) =
      SessionStart
        \<lparr>stt_model = ''assemblyai/universal-streaming'', stt_language = ''en'',
         llm_model = ''openai/gpt-4.1-mini'', tts_target_language_code = ''en-IN'',
         tts_speaker = ''anushka'', vad = v, preemptive_generation = True\<rparr>
        Assistant (room_name ctx)
        \<lparr>audio_input = \<lparr>noise_cancellation = noise_cancellation_selector\<rparr>\<rparr>
      # SessionSay GREETING
      # (if say_error rt = None then [CtxConnect] else [])"
    unfolding my_agent_def Let_def
      make_session_ok[OF assms(1,2,3) vad assms(5)]
      make_start_arguments_ok[OF assms(6,7,8)]
    using assms(9) by (simp split: option.splits)
  show "\<exists>session. snd (snd (my_agent rt ctx)) =
            SessionStart session Assistant (room_name ctx)
              \<lparr>audio_input = \<lparr>noise_cancellation = noise_cancellation_selector\<rparr>\<rparr>
            # SessionSay GREETING
            # (if say_error rt = None then [CtxConnect] else [])"
    unfolding run by blast
  show "filter is_say (snd (snd (my_agent rt ctx))) = [SessionSay GREETING]"
    unfolding run by simp
  show "length (filter is_say (snd (snd (my_agent rt' ctx')) :: 'a step list)) \<le> 1"
    using my_agent_issued[of rt' ctx'] by (auto split: option.splits)
  show "CtxConnect \<in> set (snd (snd (my_agent rt' ctx')) :: 'a step list) \<longrightarrow>
            (\<exists>start. snd (snd (my_agent rt' ctx')) =
               [start, SessionSay GREETING, CtxConnect] \<and> \<not> is_say start
               \<and> start \<noteq> CtxConnect)"
    using my_agent_issued[of rt' ctx'] by (auto split: option.splits)
qed

theorem greeting_before_connect_witness:
  "(\<exists>session. snd (snd (my_agent sample_runtime sample_context)) =
      [SessionStart session Assistant ''call-1''
         \<lparr>audio_input = \<lparr>noise_cancellation = noise_cancellation_selector\<rparr>\<rparr>,
       SessionSay GREETING, CtxConnect])
   \<and> filter is_say (snd (snd (my_agent sample_runtime sample_context))) =
       [SessionSay
          ''Namaste! Welcome to Grand Vista Hotel. Sure, I can help you with your booking. May I know your check-in and check-out dates?'']"
proof -
  have v: "userdata sample_context ''vad'' = Some 0"
    by (simp add: sample_context_def prewarm_def)
  have ok: "stt_error sample_runtime = None" "llm_error sample_runtime = None"
    "tts_error sample_runtime = None" "session_error sample_runtime = None"
    "assistant_error sample_runtime = None" "audio_input_error sample_runtime = None"
    "room_options_error sample_runtime = None" "start_error sample_runtime = None"
    "say_error sample_runtime = None" "room_name sample_context = ''call-1''"
    by (simp_all add: sample_runtime_def sample_context_def)
  note inst = greeting_before_connect[OF ok(1,2,3) v ok(4,5,6,7,8),
      of sample_runtime sample_context]
  from inst[THEN conjunct1] inst[THEN conjunct2, THEN conjunct1] show ?thesis
    by (simp add: ok(9,10) GREETING_def)
qed

end
